theory Spec2Isabelle
  imports Main
begin

section \<open>Hazard data provider: source paths and providers\<close>

text \<open>
  A shallow embedding of \<^verbatim>\<open>physrisk/data/hazard_data_provider.py\<close>. Every
  \<^verbatim>\<open>raise\<close>, failed \<^verbatim>\<open>assert\<close>, missing dictionary key and out-of-range index of
  the source is a value \<open>Inl e\<close> of the result type; a returned value is \<open>Inr v\<close>.
  Assertions are modelled as the interpreter runs them by default (not under \<^verbatim>\<open>-O\<close>).
\<close>

subsection \<open>Exceptions\<close>

datatype py_error =
    ValueError string
  | AssertionError
  | KeyError string
  | IndexError
  | OtherError string

subsection \<open>Strings: \<^verbatim>\<open>str.split\<close>, \<^verbatim>\<open>str.startswith\<close>, formatting an int, \<^verbatim>\<open>os.path.join\<close>\<close>

text \<open>
  \<^verbatim>\<open>s.split(sep)\<close> for a one-character separator: the pieces between the separators,
  empty pieces kept, never an empty list.
\<close>

fun split_on :: "char \<Rightarrow> string \<Rightarrow> string list" where
  "split_on sep [] = [[]]"
| "split_on sep (c # cs) =
     (if c = sep then [] # split_on sep cs
      else (case split_on sep cs of [] \<Rightarrow> [[c]] | w # ws \<Rightarrow> (c # w) # ws))"

text \<open>\<^verbatim>\<open>sep.join(parts)\<close>, the inverse of \<^verbatim>\<open>split\<close>.\<close>

fun join_with :: "char \<Rightarrow> string list \<Rightarrow> string" where
  "join_with sep [] = []"
| "join_with sep [w] = w"
| "join_with sep (w # v # ws) = w @ sep # join_with sep (v # ws)"

fun startswith :: "string \<Rightarrow> string \<Rightarrow> bool" where
  "startswith s [] = True"
| "startswith [] (p # ps) = False"
| "startswith (c # cs) (p # ps) = (c = p \<and> startswith cs ps)"

definition endswith :: "string \<Rightarrow> string \<Rightarrow> bool" where
  "endswith s p = startswith (rev s) (rev p)"

text \<open>The decimal digits of a natural number, most significant first.\<close>

fun digits :: "nat \<Rightarrow> string" where
  "digits n =
     (if n < 10 then [''0123456789'' ! n]
      else digits (n div 10) @ [''0123456789'' ! (n mod 10)])"

declare digits.simps [simp del]

text \<open>What an f-string writes for \<^verbatim>\<open>{year}\<close> when \<^verbatim>\<open>year\<close> is an int.\<close>

definition str_int :: "int \<Rightarrow> string" where
  "str_int i = (if i < 0 then CHR ''-'' # digits (nat (- i)) else digits (nat i))"

text \<open>
  \<^verbatim>\<open>os.path.join(a, b)\<close> of \<^verbatim>\<open>posixpath\<close>: an absolute \<open>b\<close> replaces \<open>a\<close>; otherwise
  the two are put together with one separator unless \<open>a\<close> is empty or ends with one.
\<close>

definition os_path_join :: "string \<Rightarrow> string \<Rightarrow> string" where
  "os_path_join a b =
     (if startswith b ''/'' then b
      else if a = [] \<or> endswith a ''/'' then a @ b
      else a @ ''/'' @ b)"

subsection \<open>Scenario identifiers\<close>

definition cmip6_scenario_to_rcp :: "string \<Rightarrow> py_error + string" where
  "cmip6_scenario_to_rcp scenario =
     (if scenario = ''ssp126'' then Inr ''rcp2p6''
      else if scenario = ''ssp245'' then Inr ''rcp4p5''
      else if scenario = ''ssp585'' then Inr ''rcp8p5''
      else if scenario \<notin> set [''rcp2p6'', ''rcp4p5'', ''rcp8p5'', ''historical'']
        then Inl (ValueError (''unexpected scenario '' @ scenario))
      else Inr scenario)"

subsection \<open>World Resource Aqueduct model\<close>

definition wri_inundation_prefix :: string where
  "wri_inundation_prefix = ''inundation/wri/v2''"

text \<open>The dictionary \<^verbatim>\<open>_percentiles_map\<close>; a missing key is a \<^verbatim>\<open>KeyError\<close>.\<close>

definition percentiles_map :: "string \<rightharpoonup> string" where
  "percentiles_map = [''95'' \<mapsto> ''0'', ''5'' \<mapsto> ''0_perc_05'', ''50'' \<mapsto> ''0_perc_50'']"

definition subsidence_set :: "string set" where
  "subsidence_set = {''wtsub'', ''nosub''}"

text \<open>
  The f-string evaluates its fields from left to right: the scenario is translated
  before the percentile is looked up, so a bad scenario is reported first.
\<close>

definition get_source_path_wri_coastal_inundation ::
  "string \<Rightarrow> string \<Rightarrow> int \<Rightarrow> py_error + string" where
  "get_source_path_wri_coastal_inundation model scenario year =
     (let model_components = split_on CHR ''/'' model;
          sub = hd model_components
      in if sub \<notin> subsidence_set
         then Inl (ValueError
           ''expected model input of the form {subsidence/percentile}, e.g. wtsub/95, nosub/5, wtsub/50'')
         else
           (let perc = (if length model_components = 1 then ''95'' else model_components ! 1)
            in case cmip6_scenario_to_rcp scenario of
                 Inl e \<Rightarrow> Inl e
               | Inr rcp \<Rightarrow>
                   (case percentiles_map perc of
                      None \<Rightarrow> Inl (KeyError perc)
                    | Some suffix \<Rightarrow>
                        Inr (os_path_join wri_inundation_prefix
                          (''inun'' @ ''coast'' @ ''_'' @ rcp @ ''_'' @ sub @ ''_''
                             @ str_int year @ ''_'' @ suffix)))))"

definition get_source_path_wri_riverine_inundation ::
  "string \<Rightarrow> string \<Rightarrow> int \<Rightarrow> py_error + string" where
  "get_source_path_wri_riverine_inundation model scenario year =
     (case cmip6_scenario_to_rcp scenario of
        Inl e \<Rightarrow> Inl e
      | Inr rcp \<Rightarrow>
          Inr (os_path_join wri_inundation_prefix
            (''inun'' @ ''river'' @ ''_'' @ rcp @ ''_'' @ model @ ''_'' @ str_int year)))"

subsection \<open>OS-C chronic heat model\<close>

definition osc_chronic_heat_prefix :: string where
  "osc_chronic_heat_prefix = ''chronic_heat/osc/v1''"

text \<open>\<^verbatim>\<open>levels[i]\<close> on a Python list: an \<^verbatim>\<open>IndexError\<close> out of range.\<close>

definition index :: "'a list \<Rightarrow> nat \<Rightarrow> py_error + 'a" where
  "index xs i = (if i < length xs then Inr (xs ! i) else Inl IndexError)"

text \<open>\<^verbatim>\<open>assert xs[i] in allowed\<close>: the index is read first, then the assertion is checked.\<close>

definition assert_index_in :: "string list \<Rightarrow> nat \<Rightarrow> string list \<Rightarrow> py_error + unit" where
  "assert_index_in xs i allowed =
     (case index xs i of
        Inl e \<Rightarrow> Inl e
      | Inr x \<Rightarrow> if x \<in> set allowed then Inr () else Inl AssertionError)"

definition get_source_path_osc_chronic_heat ::
  "string \<Rightarrow> string \<Rightarrow> int \<Rightarrow> py_error + string" where
  "get_source_path_osc_chronic_heat model scenario year =
     (let parts = split_on CHR ''/'' model;
          type = hd parts;
          levels = tl parts
      in if type = ''mean_degree_days'' then
           (case assert_index_in levels 0 [''above'', ''below''] of
              Inl e \<Rightarrow> Inl e
            | Inr _ \<Rightarrow>
                (case assert_index_in levels 1 [''18c'', ''32c''] of
                   Inl e \<Rightarrow> Inl e
                 | Inr _ \<Rightarrow>
                     Inr (osc_chronic_heat_prefix @ ''/'' @ type @ ''_'' @ levels ! 0 @ ''_''
                            @ levels ! 1 @ ''_'' @ scenario @ ''_'' @ str_int year)))
         else if type = ''mean_work_loss'' then
           (case assert_index_in levels 0 [''low'', ''medium'', ''high''] of
              Inl e \<Rightarrow> Inl e
            | Inr _ \<Rightarrow>
                Inr (osc_chronic_heat_prefix @ ''/'' @ type @ ''_'' @ levels ! 0 @ ''_''
                       @ scenario @ ''_'' @ str_int year))
         else Inl (ValueError ''valid types are {valid_types}''))"

subsection \<open>Generic source path from the inventory\<close>

text \<open>
  The fields of a resource and of its scenarios that the source reads. The inventory is
  \<^verbatim>\<open>inventory.resources_by_type_id.items()\<close>, in the order the dictionary yields its items.
\<close>

record scenario =
  scenario_id :: string

record resource =
  path :: string
  array_name :: string
  scenarios :: "scenario list"

type_synonym inventory = "((string \<times> string) \<times> resource list) list"

type_synonym source_path = "string \<Rightarrow> string \<Rightarrow> int \<Rightarrow> py_error + string option"

text \<open>
  \<^verbatim>\<open>dict((id, resources[0]) for ((htype, id), resources) in ... if htype == hazard_type)\<close>:
  the items are visited in order, \<^verbatim>\<open>resources[0]\<close> raises on an empty list, and a later
  item with the same id replaces an earlier one.
\<close>

fun resources_dict_of ::
  "inventory \<Rightarrow> string \<Rightarrow> (string \<rightharpoonup> resource) \<Rightarrow> py_error + (string \<rightharpoonup> resource)" where
  "resources_dict_of [] hazard_type acc = Inr acc"
| "resources_dict_of (((htype, ident), resources) # items) hazard_type acc =
     (if htype = hazard_type then
        (case index resources 0 of
           Inl e \<Rightarrow> Inl e
         | Inr r \<Rightarrow> resources_dict_of items hazard_type (acc(ident \<mapsto> r)))
      else resources_dict_of items hazard_type acc)"

text \<open>
  The inner function \<^verbatim>\<open>get_source_path\<close>, with the variables it closes over as its first
  arguments; \<open>format_resource_path\<close> is its last line,
  \<^verbatim>\<open>str(PosixPath(resource.path, resource.array_name.format(...)))\<close>. Three collaborators are not part of this file and are parameters:
  \<open>hazard_class\<close> (\<^verbatim>\<open>hazards.hazard_class\<close>, a class named by a string),
  \<open>str_format tmpl id scenario year\<close> (\<^verbatim>\<open>tmpl.format(id=.., scenario=.., year=..)\<close>) and
  \<open>posix_path a b\<close> (\<^verbatim>\<open>str(PosixPath(a, b))\<close>). The result \<open>Inr None\<close> is Python's
  \<^verbatim>\<open>None\<close>.
\<close>

definition format_resource_path ::
  "(string \<Rightarrow> string \<Rightarrow> string \<Rightarrow> int \<Rightarrow> py_error + string) \<Rightarrow> (string \<Rightarrow> string \<Rightarrow> py_error + string) \<Rightarrow>
   resource \<Rightarrow> string \<Rightarrow> string \<Rightarrow> int \<Rightarrow> py_error + string option" where
  "format_resource_path str_format posix_path resource model proxy_scenario year =
     (case str_format (array_name resource) model proxy_scenario year of
        Inl e \<Rightarrow> Inl e
      | Inr name \<Rightarrow>
          (case posix_path (path resource) name of
             Inl e \<Rightarrow> Inl e
           | Inr p \<Rightarrow> Inr (Some p)))"

definition generic_get_source_path ::
  "(string \<Rightarrow> py_error + string) \<Rightarrow> (string \<Rightarrow> string \<Rightarrow> string \<Rightarrow> int \<Rightarrow> py_error + string) \<Rightarrow>
   (string \<Rightarrow> string \<Rightarrow> py_error + string) \<Rightarrow>
   (string \<rightharpoonup> resource) \<Rightarrow> string \<Rightarrow> (string \<rightharpoonup> source_path) option \<Rightarrow> source_path" where
  "generic_get_source_path hazard_class str_format posix_path resources_dict hazard_type embedded
       model scenario year =
     (case resources_dict model of
        None \<Rightarrow>
          (case embedded of
             None \<Rightarrow> Inr None
           | Some emb \<Rightarrow>
               (case hazard_class hazard_type of
                  Inl e \<Rightarrow> Inl e
                | Inr cls \<Rightarrow>
                    (case emb cls of
                       None \<Rightarrow> Inl (KeyError cls)
                     | Some f \<Rightarrow> f model scenario year)))
      | Some resource \<Rightarrow>
          (case index (scenarios resource) 0 of
             Inl e \<Rightarrow> Inl e
           | Inr s0 \<Rightarrow>
               (case (if startswith (scenario_id s0) ''rcp''
                      then cmip6_scenario_to_rcp scenario else Inr scenario) of
                  Inl e \<Rightarrow> Inl e
                | Inr proxy_scenario \<Rightarrow>
                    format_resource_path str_format posix_path resource model
                      proxy_scenario year)))"

definition get_source_path_generic ::
  "(string \<Rightarrow> py_error + string) \<Rightarrow> (string \<Rightarrow> string \<Rightarrow> string \<Rightarrow> int \<Rightarrow> py_error + string) \<Rightarrow>
   (string \<Rightarrow> string \<Rightarrow> py_error + string) \<Rightarrow>
   inventory \<Rightarrow> string \<Rightarrow> (string \<rightharpoonup> source_path) option \<Rightarrow> py_error + source_path" where
  "get_source_path_generic hazard_class str_format posix_path inventory hazard_type embedded =
     (case resources_dict_of inventory hazard_type Map.empty of
        Inl e \<Rightarrow> Inl e
      | Inr resources_dict \<Rightarrow>
          Inr (generic_get_source_path hazard_class str_format posix_path
                 resources_dict hazard_type embedded))"

subsection \<open>Hazard data providers\<close>

text \<open>
  A two-dimensional array: its number of columns and its rows. \<^verbatim>\<open>a[:, 0]\<close> raises an
  \<^verbatim>\<open>IndexError\<close> when the second axis has size 0 and is the first entry of every row
  otherwise. The entries are never computed with, so their type is left open.
\<close>

record 'a ndarray =
  ncols :: nat
  rows :: "'a list list"

definition well_shaped :: "'a ndarray \<Rightarrow> bool" where
  "well_shaped a = list_all (\<lambda>r. length r = ncols a) (rows a)"

definition column0 :: "'a ndarray \<Rightarrow> py_error + 'a list" where
  "column0 a = (if ncols a = 0 then Inl IndexError else Inr (map hd (rows a)))"

text \<open>
  The provider's state. \<open>'r\<close> is the reader. The reader's constructor
  \<^verbatim>\<open>ZarrReader(store=store)\<close> and its method \<^verbatim>\<open>get_curves\<close> belong to another module
  and are parameters \<open>mk_reader\<close> and \<open>get_curves\<close>; both may raise.
\<close>

record 'r provider =
  get_source_path :: source_path
  reader :: 'r
  interpolation :: string

definition interpolation_message :: string where
  "interpolation_message = ''interpolation must be 'floor' or 'linear'' @ [CHR 0x27]"

text \<open>
  \<^verbatim>\<open>HazardDataProvider.__init__\<close>: the reader is taken or built first, then the
  interpolation (an optional string) is checked.
\<close>

definition HazardDataProvider_init ::
  "('s option \<Rightarrow> py_error + 'r) \<Rightarrow> source_path \<Rightarrow> 's option \<Rightarrow> 'r option \<Rightarrow> string option
     \<Rightarrow> py_error + 'r provider" where
  "HazardDataProvider_init mk_reader gsp store zarr_reader interp =
     (case (case zarr_reader of Some r \<Rightarrow> Inr r | None \<Rightarrow> mk_reader store) of
        Inl e \<Rightarrow> Inl e
      | Inr rd \<Rightarrow>
          (case interp of
             None \<Rightarrow> Inl (ValueError interpolation_message)
           | Some i \<Rightarrow>
               if i \<notin> set [''floor'', ''linear'']
               then Inl (ValueError interpolation_message)
               else Inr \<lparr>get_source_path = gsp, reader = rd, interpolation = i\<rparr>))"

definition AcuteHazardDataProvider_init ::
  "('s option \<Rightarrow> py_error + 'r) \<Rightarrow> source_path \<Rightarrow> 's option \<Rightarrow> 'r option \<Rightarrow> string option
     \<Rightarrow> py_error + 'r provider" where
  "AcuteHazardDataProvider_init = HazardDataProvider_init"

definition ChronicHazardDataProvider_init ::
  "('s option \<Rightarrow> py_error + 'r) \<Rightarrow> source_path \<Rightarrow> 's option \<Rightarrow> 'r option \<Rightarrow> string option
     \<Rightarrow> py_error + 'r provider" where
  "ChronicHazardDataProvider_init = HazardDataProvider_init"

definition get_intensity_curves ::
  "('r \<Rightarrow> string option \<Rightarrow> 'c list \<Rightarrow> 'c list \<Rightarrow> string \<Rightarrow> py_error + ('a ndarray \<times> 'p))
     \<Rightarrow> 'r provider \<Rightarrow> 'c list \<Rightarrow> 'c list \<Rightarrow> string \<Rightarrow> string \<Rightarrow> int
     \<Rightarrow> py_error + ('a ndarray \<times> 'p)" where
  "get_intensity_curves get_curves self longitudes latitudes model scenario year =
     (case get_source_path self model scenario year of
        Inl e \<Rightarrow> Inl e
      | Inr p \<Rightarrow>
          (case get_curves (reader self) p longitudes latitudes (interpolation self) of
             Inl e \<Rightarrow> Inl e
           | Inr (curves, return_periods) \<Rightarrow> Inr (curves, return_periods)))"

definition get_parameters ::
  "('r \<Rightarrow> string option \<Rightarrow> 'c list \<Rightarrow> 'c list \<Rightarrow> string \<Rightarrow> py_error + ('a ndarray \<times> 'p))
     \<Rightarrow> 'r provider \<Rightarrow> 'c list \<Rightarrow> 'c list \<Rightarrow> string \<Rightarrow> string \<Rightarrow> int
     \<Rightarrow> py_error + 'a list" where
  "get_parameters get_curves self longitudes latitudes model scenario year =
     (case get_source_path self model scenario year of
        Inl e \<Rightarrow> Inl e
      | Inr p \<Rightarrow>
          (case get_curves (reader self) p longitudes latitudes (interpolation self) of
             Inl e \<Rightarrow> Inl e
           | Inr (parameters, _) \<Rightarrow> column0 parameters))"

text \<open>
  A construction with no reader supplied and no store that can be opened: the reader's
  constructor raises. \<open>unavailable_reader\<close> stands for \<^verbatim>\<open>ZarrReader(store=store)\<close> in
  that case and \<open>no_source_path\<close> for a source path that finds nothing.
\<close>

definition unavailable_reader :: "unit option \<Rightarrow> py_error + unit" where
  "unavailable_reader store = Inl (OtherError ''cannot open store'')"

definition no_source_path :: source_path where
  "no_source_path model scenario year = Inr None"

section \<open>Properties\<close>

subsection \<open>Splitting and formatting\<close>

lemma split_on_nonempty: "split_on sep s \<noteq> []"
  by (induction s) (auto split: list.splits)

lemma join_split_on: "join_with sep (split_on sep s) = s"
proof (induction s)
  case Nil
  show ?case by simp
next
  case (Cons c cs)
  then show ?case
    by (cases "split_on sep cs"; cases "tl (split_on sep cs)") (auto simp: split_on_nonempty)
qed

lemma split_on_no_sep: "w \<in> set (split_on sep s) \<Longrightarrow> sep \<notin> set w"
  by (induction s arbitrary: w) (auto split: if_splits list.splits)

lemma split_on_plain: "sep \<notin> set a \<Longrightarrow> split_on sep a = [a]"
  by (induction a) auto

lemma split_on_append: "sep \<notin> set a \<Longrightarrow> split_on sep (a @ sep # b) = a # split_on sep b"
  by (induction a) auto

lemma str_int_2100: "str_int 2100 = ''2100''"
  by code_simp

lemma str_int_2050: "str_int 2050 = ''2050''"
  by code_simp

subsection \<open>The scenario translation\<close>

text \<open>
  Claim C1. \<open>cmip6_scenario_to_rcp\<close> sends \<open>ssp126\<close>, \<open>ssp245\<close> and \<open>ssp585\<close> to
  \<open>rcp2p6\<close>, \<open>rcp4p5\<close> and \<open>rcp8p5\<close>; it returns each of \<open>rcp2p6\<close>, \<open>rcp4p5\<close>,
  \<open>rcp8p5\<close> and \<open>historical\<close> unchanged; and on every other string it raises the
  \<^verbatim>\<open>ValueError\<close> "unexpected scenario ..." naming that string.
\<close>

theorem cmip6_scenario_to_rcp_table:
  "cmip6_scenario_to_rcp ''ssp126'' = Inr ''rcp2p6'' \<and>
   cmip6_scenario_to_rcp ''ssp245'' = Inr ''rcp4p5'' \<and>
   cmip6_scenario_to_rcp ''ssp585'' = Inr ''rcp8p5'' \<and>
   (\<forall>s \<in> set [''rcp2p6'', ''rcp4p5'', ''rcp8p5'', ''historical''].
      cmip6_scenario_to_rcp s = Inr s) \<and>
   (\<forall>s. s \<notin> set [''ssp126'', ''ssp245'', ''ssp585'',
                  ''rcp2p6'', ''rcp4p5'', ''rcp8p5'', ''historical'']
      \<longrightarrow> cmip6_scenario_to_rcp s = Inl (ValueError (''unexpected scenario '' @ s)))"
  by (simp add: cmip6_scenario_to_rcp_def)

theorem cmip6_scenario_to_rcp_table_witness:
  "cmip6_scenario_to_rcp ''historical'' = Inr ''historical'' \<and>
   cmip6_scenario_to_rcp ''ssp370'' = Inl (ValueError ''unexpected scenario ssp370'')"
  using cmip6_scenario_to_rcp_table by simp

subsection \<open>OS-C chronic heat paths\<close>

text \<open>
  Claim C4. \<open>get_source_path_osc_chronic_heat\<close> on model \<open>mean_work_loss/high\<close>,
  scenario \<open>ssp585\<close> and year 2100 returns
  \<open>chronic_heat/osc/v1/mean_work_loss_high_ssp585_2100\<close>; and for every model with valid
  levels the path carries the caller's scenario string as it was given, whatever it is,
  with no translation to an RCP name.
\<close>

theorem osc_chronic_heat_scenario_verbatim:
  "get_source_path_osc_chronic_heat ''mean_work_loss/high'' ''ssp585'' 2100
     = Inr ''chronic_heat/osc/v1/mean_work_loss_high_ssp585_2100'' \<and>
   (\<forall>l1 rest. split_on CHR ''/'' model = ''mean_work_loss'' # l1 # rest
        \<and> l1 \<in> set [''low'', ''medium'', ''high'']
      \<longrightarrow> get_source_path_osc_chronic_heat model scenario year
            = Inr (''chronic_heat/osc/v1/mean_work_loss_'' @ l1 @ ''_'' @ scenario @ ''_''
                     @ str_int year)) \<and>
   (\<forall>l1 l2 rest. split_on CHR ''/'' model = ''mean_degree_days'' # l1 # l2 # rest
        \<and> l1 \<in> set [''above'', ''below''] \<and> l2 \<in> set [''18c'', ''32c'']
      \<longrightarrow> get_source_path_osc_chronic_heat model scenario year
            = Inr (''chronic_heat/osc/v1/mean_degree_days_'' @ l1 @ ''_'' @ l2 @ ''_''
                     @ scenario @ ''_'' @ str_int year))"
proof (intro conjI allI impI)
  show "get_source_path_osc_chronic_heat ''mean_work_loss/high'' ''ssp585'' 2100
     = Inr ''chronic_heat/osc/v1/mean_work_loss_high_ssp585_2100''"
    by (simp add: get_source_path_osc_chronic_heat_def assert_index_in_def index_def
        osc_chronic_heat_prefix_def str_int_2100)
next
  fix l1 rest
  assume "split_on CHR ''/'' model = ''mean_work_loss'' # l1 # rest
        \<and> l1 \<in> set [''low'', ''medium'', ''high'']"
  then show "get_source_path_osc_chronic_heat model scenario year
            = Inr (''chronic_heat/osc/v1/mean_work_loss_'' @ l1 @ ''_'' @ scenario @ ''_''
                     @ str_int year)"
    by (auto simp add: get_source_path_osc_chronic_heat_def assert_index_in_def index_def
        osc_chronic_heat_prefix_def)
next
  fix l1 l2 rest
  assume "split_on CHR ''/'' model = ''mean_degree_days'' # l1 # l2 # rest
        \<and> l1 \<in> set [''above'', ''below''] \<and> l2 \<in> set [''18c'', ''32c'']"
  then show "get_source_path_osc_chronic_heat model scenario year
            = Inr (''chronic_heat/osc/v1/mean_degree_days_'' @ l1 @ ''_'' @ l2 @ ''_''
                     @ scenario @ ''_'' @ str_int year)"
    by (auto simp add: get_source_path_osc_chronic_heat_def assert_index_in_def index_def
        osc_chronic_heat_prefix_def)
qed

theorem osc_chronic_heat_scenario_verbatim_witness:
  "get_source_path_osc_chronic_heat ''mean_work_loss/low'' ''not a scenario'' 2080
     = Inr ''chronic_heat/osc/v1/mean_work_loss_low_not a scenario_2080'' \<and>
   get_source_path_osc_chronic_heat ''mean_degree_days/below/32c/more'' ''ssp245'' (-3)
     = Inr ''chronic_heat/osc/v1/mean_degree_days_below_32c_ssp245_-3''"
  using osc_chronic_heat_scenario_verbatim [of "''mean_work_loss/low''" "''not a scenario''" 2080]
    osc_chronic_heat_scenario_verbatim [of "''mean_degree_days/below/32c/more''" "''ssp245''" "-3"]
  by (simp add: str_int_def digits.simps)

subsection \<open>WRI riverine paths\<close>

text \<open>
  Claim C6. \<open>get_source_path_wri_riverine_inundation\<close> on model \<open>00000NorESM1-M\<close>,
  scenario \<open>rcp8p5\<close> and year 2050 returns
  \<open>inundation/wri/v2/inunriver_rcp8p5_00000NorESM1-M_2050\<close>; and for every model
  string at all, once the scenario translates, the model is written into the path as it is.
\<close>

theorem wri_riverine_path:
  "get_source_path_wri_riverine_inundation ''00000NorESM1-M'' ''rcp8p5'' 2050
     = Inr ''inundation/wri/v2/inunriver_rcp8p5_00000NorESM1-M_2050'' \<and>
   (\<forall>rcp. cmip6_scenario_to_rcp scenario = Inr rcp
      \<longrightarrow> get_source_path_wri_riverine_inundation model scenario year
            = Inr (''inundation/wri/v2/inunriver_'' @ rcp @ ''_'' @ model @ ''_''
                     @ str_int year))"
  by (simp add: get_source_path_wri_riverine_inundation_def cmip6_scenario_to_rcp_def
      os_path_join_def endswith_def wri_inundation_prefix_def str_int_2050)

theorem wri_riverine_path_witness:
  "get_source_path_wri_riverine_inundation ''a/b//not checked'' ''ssp126'' 2030
     = Inr ''inundation/wri/v2/inunriver_rcp2p6_a/b//not checked_2030''"
  using wri_riverine_path [of "''ssp126''" "''a/b//not checked''" 2030]
  by (simp add: cmip6_scenario_to_rcp_def str_int_def digits.simps)

subsection \<open>WRI coastal paths\<close>

text \<open>
  Claim C5. For a model \<open>sub/perc\<close> with \<open>sub\<close> one of \<open>wtsub\<close>, \<open>nosub\<close> and
  \<open>perc\<close> one of \<open>95\<close>, \<open>5\<close>, \<open>50\<close>, and a scenario that translates to \<open>rcp\<close>,
  \<open>get_source_path_wri_coastal_inundation\<close> returns
  \<open>inundation/wri/v2/inuncoast_{rcp}_{sub}_{year}_{suffix}\<close> with the suffix \<open>0\<close>,
  \<open>0_perc_05\<close>, \<open>0_perc_50\<close> respectively; and the model \<open>sub\<close> alone, with no
  percentile, gives the same result as \<open>sub/95\<close>.
\<close>

theorem wri_coastal_path:
  assumes "sub \<in> subsidence_set"
      and "cmip6_scenario_to_rcp scenario = Inr rcp"
  shows "get_source_path_wri_coastal_inundation (sub @ ''/95'') scenario year
           = Inr (''inundation/wri/v2/inuncoast_'' @ rcp @ ''_'' @ sub @ ''_'' @ str_int year
                    @ ''_0'') \<and>
         get_source_path_wri_coastal_inundation (sub @ ''/5'') scenario year
           = Inr (''inundation/wri/v2/inuncoast_'' @ rcp @ ''_'' @ sub @ ''_'' @ str_int year
                    @ ''_0_perc_05'') \<and>
         get_source_path_wri_coastal_inundation (sub @ ''/50'') scenario year
           = Inr (''inundation/wri/v2/inuncoast_'' @ rcp @ ''_'' @ sub @ ''_'' @ str_int year
                    @ ''_0_perc_50'') \<and>
         get_source_path_wri_coastal_inundation sub scenario year
           = get_source_path_wri_coastal_inundation (sub @ ''/95'') scenario year"
proof -
  have sub: "sub = ''wtsub'' \<or> sub = ''nosub''"
    using assms(1) by (simp add: subsidence_set_def)
  then show ?thesis
    using assms(2)
    by (auto simp add: get_source_path_wri_coastal_inundation_def subsidence_set_def
        percentiles_map_def os_path_join_def endswith_def wri_inundation_prefix_def)
qed

theorem wri_coastal_path_witness:
  "get_source_path_wri_coastal_inundation ''nosub/5'' ''ssp245'' 2080
     = Inr ''inundation/wri/v2/inuncoast_rcp4p5_nosub_2080_0_perc_05'' \<and>
   get_source_path_wri_coastal_inundation ''nosub'' ''ssp245'' 2080
     = Inr ''inundation/wri/v2/inuncoast_rcp4p5_nosub_2080_0''"
  using wri_coastal_path [of "''nosub''" "''ssp245''" "''rcp4p5''" 2080]
  by (simp add: cmip6_scenario_to_rcp_def subsidence_set_def str_int_def digits.simps)

text \<open>
  Claim C10. A coastal model with more than two components is resolved from its first two
  alone: whatever follows the second component is ignored, so the result is that of the
  model cut down to \<open>first/second\<close> (for instance \<open>wtsub/95/extra\<close> and \<open>wtsub/95\<close>).
\<close>

theorem wri_coastal_ignores_extra_components:
  assumes "split_on CHR ''/'' model = c0 # c1 # rest"
  shows "get_source_path_wri_coastal_inundation model scenario year
           = get_source_path_wri_coastal_inundation (c0 @ ''/'' @ c1) scenario year"
proof -
  have "c0 \<in> set (split_on CHR ''/'' model)" and "c1 \<in> set (split_on CHR ''/'' model)"
    using assms by simp_all
  then have n0: "CHR ''/'' \<notin> set c0" and n1: "CHR ''/'' \<notin> set c1"
    by (auto dest: split_on_no_sep)
  have "split_on CHR ''/'' (c0 @ ''/'' @ c1) = [c0, c1]"
    using split_on_append [OF n0, of c1] split_on_plain [OF n1] by simp
  then show ?thesis
    using assms
    by (simp add: get_source_path_wri_coastal_inundation_def Let_def
        split: sum.splits option.splits)
qed

theorem wri_coastal_ignores_extra_components_witness:
  "get_source_path_wri_coastal_inundation ''wtsub/95/extra'' ''rcp8p5'' 2050
     = get_source_path_wri_coastal_inundation ''wtsub/95'' ''rcp8p5'' 2050"
  using wri_coastal_ignores_extra_components [of "''wtsub/95/extra''" "''wtsub''" "''95''" "[''extra'']" "''rcp8p5''" 2050]
  by simp

subsection \<open>OS-C chronic heat: rejected models\<close>

text \<open>
  Claim C9. For the type \<open>mean_degree_days\<close>, a model whose first level is not
  \<open>above\<close> or \<open>below\<close>, or whose second level is not \<open>18c\<close> or \<open>32c\<close>, or that
  lacks either level, fails: with an \<^verbatim>\<open>AssertionError\<close> when the token is there and
  wrong, with an \<^verbatim>\<open>IndexError\<close> when it is missing. For \<open>mean_work_loss\<close>, a level
  outside \<open>low\<close>, \<open>medium\<close>, \<open>high\<close> fails with an \<^verbatim>\<open>AssertionError\<close> (a missing one
  with an \<^verbatim>\<open>IndexError\<close>). Any other first component fails with the \<^verbatim>\<open>ValueError\<close>
  "valid types are ...". In no such case is a path returned.
\<close>

theorem osc_chronic_heat_invalid_model:
  "(\<forall>l1 rest. split_on CHR ''/'' model = ''mean_degree_days'' # l1 # rest
        \<and> l1 \<notin> set [''above'', ''below'']
      \<longrightarrow> get_source_path_osc_chronic_heat model scenario year = Inl AssertionError) \<and>
   (\<forall>l1 l2 rest. split_on CHR ''/'' model = ''mean_degree_days'' # l1 # l2 # rest
        \<and> l2 \<notin> set [''18c'', ''32c'']
      \<longrightarrow> get_source_path_osc_chronic_heat model scenario year = Inl AssertionError) \<and>
   (split_on CHR ''/'' model = [''mean_degree_days'']
      \<longrightarrow> get_source_path_osc_chronic_heat model scenario year = Inl IndexError) \<and>
   (\<forall>l1. split_on CHR ''/'' model = [''mean_degree_days'', l1]
        \<and> l1 \<in> set [''above'', ''below'']
      \<longrightarrow> get_source_path_osc_chronic_heat model scenario year = Inl IndexError) \<and>
   (\<forall>l1 rest. split_on CHR ''/'' model = ''mean_work_loss'' # l1 # rest
        \<and> l1 \<notin> set [''low'', ''medium'', ''high'']
      \<longrightarrow> get_source_path_osc_chronic_heat model scenario year = Inl AssertionError) \<and>
   (split_on CHR ''/'' model = [''mean_work_loss'']
      \<longrightarrow> get_source_path_osc_chronic_heat model scenario year = Inl IndexError) \<and>
   (hd (split_on CHR ''/'' model) \<notin> set [''mean_degree_days'', ''mean_work_loss'']
      \<longrightarrow> get_source_path_osc_chronic_heat model scenario year
            = Inl (ValueError ''valid types are {valid_types}''))"
  by (auto simp add: get_source_path_osc_chronic_heat_def assert_index_in_def index_def)

theorem osc_chronic_heat_invalid_model_witness:
  "get_source_path_osc_chronic_heat ''mean_degree_days/sideways/18c'' ''ssp245'' 2080 = Inl AssertionError \<and>
   get_source_path_osc_chronic_heat ''mean_degree_days/above/20c'' ''ssp245'' 2080 = Inl AssertionError \<and>
   get_source_path_osc_chronic_heat ''mean_degree_days'' ''ssp245'' 2080 = Inl IndexError \<and>
   get_source_path_osc_chronic_heat ''mean_degree_days/above'' ''ssp245'' 2080 = Inl IndexError \<and>
   get_source_path_osc_chronic_heat ''mean_work_loss/extreme'' ''ssp245'' 2080 = Inl AssertionError \<and>
   get_source_path_osc_chronic_heat ''mean_work_loss'' ''ssp245'' 2080 = Inl IndexError \<and>
   get_source_path_osc_chronic_heat ''mean_sea_level/high'' ''ssp245'' 2080
     = Inl (ValueError ''valid types are {valid_types}'')"
  using osc_chronic_heat_invalid_model [of "''mean_degree_days/sideways/18c''" "''ssp245''" 2080]
    osc_chronic_heat_invalid_model [of "''mean_degree_days/above/20c''" "''ssp245''" 2080]
    osc_chronic_heat_invalid_model [of "''mean_degree_days''" "''ssp245''" 2080]
    osc_chronic_heat_invalid_model [of "''mean_degree_days/above''" "''ssp245''" 2080]
    osc_chronic_heat_invalid_model [of "''mean_work_loss/extreme''" "''ssp245''" 2080]
    osc_chronic_heat_invalid_model [of "''mean_work_loss''" "''ssp245''" 2080]
    osc_chronic_heat_invalid_model [of "''mean_sea_level/high''" "''ssp245''" 2080]
  by simp

subsection \<open>The generic source path\<close>

text \<open>
  What the dictionary built from the inventory holds: a model with no item for the hazard
  type is absent, and when the keys of the inventory are distinct (as the keys of a
  dictionary are) a model with an item maps to the first resource of that item.
\<close>

lemma resources_dict_of_miss:
  "resources_dict_of inventory ht acc = Inr d \<Longrightarrow> (ht, model) \<notin> fst ` set inventory \<Longrightarrow> d model = acc model"
proof (induction inventory ht acc rule: resources_dict_of.induct)
  case (1 hazard_type acc)
  then show ?case by simp
next
  case (2 htype ident resources items hazard_type acc)
  show ?case
  proof (cases "htype = hazard_type")
    case True
    with "2.prems"(1) obtain r where r: "index resources 0 = Inr r"
      and d: "resources_dict_of items hazard_type (acc(ident \<mapsto> r)) = Inr d"
      by (auto split: sum.splits)
    from "2.prems"(2) True have "ident \<noteq> model" and "(hazard_type, model) \<notin> fst ` set items"
      by auto
    with "2.IH"(1) [OF True r d] show ?thesis by simp
  next
    case False
    with "2.prems" "2.IH"(2) show ?thesis by auto
  qed
qed

lemma resources_dict_of_hit:
  "resources_dict_of inventory ht acc = Inr d \<Longrightarrow> distinct (map fst inventory) \<Longrightarrow>
   ((ht, model), rs) \<in> set inventory \<Longrightarrow> \<exists>r rest. rs = r # rest \<and> d model = Some r"
proof (induction inventory ht acc rule: resources_dict_of.induct)
  case (1 hazard_type acc)
  then show ?case by simp
next
  case (2 htype ident resources items hazard_type acc)
  show ?case
  proof (cases "((hazard_type, model), rs) \<in> set items")
    case True
    from "2.prems"(2) have dist: "distinct (map fst items)" by simp
    show ?thesis
    proof (cases "htype = hazard_type")
      case same: True
      with "2.prems"(1) obtain r0 where r0: "index resources 0 = Inr r0"
        and d: "resources_dict_of items hazard_type (acc(ident \<mapsto> r0)) = Inr d"
        by (auto split: sum.splits)
      from "2.IH"(1) [OF same r0 d dist True] show ?thesis .
    next
      case other: False
      with "2.prems"(1) have "resources_dict_of items hazard_type acc = Inr d" by simp
      from "2.IH"(2) [OF other this dist True] show ?thesis .
    qed
  next
    case False
    with "2.prems"(3) have eq: "htype = hazard_type" "ident = model" "resources = rs"
      by auto
    with "2.prems"(1) obtain r where r: "index rs 0 = Inr r"
      and d: "resources_dict_of items hazard_type (acc(model \<mapsto> r)) = Inr d"
      by (auto split: sum.splits)
    from "2.prems"(2) eq have "(hazard_type, model) \<notin> fst ` set items"
      by auto
    from resources_dict_of_miss [OF d this] have "d model = Some r" by simp
    moreover from r obtain rest where "rs = r # rest"
      by (cases rs) (auto simp: index_def)
    ultimately show ?thesis by blast
  qed
qed

text \<open>
  Claim C3. When no embedded map was supplied and the model has no entry for the hazard
  type in the inventory (so it is not in the mapping), the function returned by
  \<open>get_source_path_generic\<close> returns \<^verbatim>\<open>None\<close> for every scenario and year; it raises
  nothing.
\<close>

theorem generic_absent_without_embedded:
  assumes "get_source_path_generic hazard_class str_format posix_path inventory hazard_type None
             = Inr resolver"
      and "(hazard_type, model) \<notin> fst ` set inventory"
  shows "resolver model scenario year = Inr None"
proof -
  from assms(1) obtain d where d: "resources_dict_of inventory hazard_type Map.empty = Inr d"
    and res: "resolver = generic_get_source_path hazard_class str_format posix_path d hazard_type None"
    by (auto simp: get_source_path_generic_def split: sum.splits)
  from resources_dict_of_miss [OF d assms(2)] have "d model = None" by simp
  with res show ?thesis by (simp add: generic_get_source_path_def)
qed

theorem generic_absent_without_embedded_witness:
  "(case get_source_path_generic (\<lambda>h. Inr h) (\<lambda>t i s y. Inr (i @ ''_'' @ s @ ''_'' @ str_int y))
           (\<lambda>a b. Inr (a @ ''/'' @ b))
           [((''RiverineInundation'', ''modelA''),
             [\<lparr>path = ''inundation/river'', array_name = ''{id}_{scenario}_{year}'',
               scenarios = [\<lparr>scenario_id = ''rcp4p5''\<rparr>]\<rparr>])]
           ''RiverineInundation'' None of
      Inl e \<Rightarrow> False
    | Inr resolver \<Rightarrow> resolver ''modelB'' ''ssp245'' 2050 = Inr None)"
proof -
  let ?res = "\<lparr>path = ''inundation/river'', array_name = ''{id}_{scenario}_{year}'',
               scenarios = [\<lparr>scenario_id = ''rcp4p5''\<rparr>]\<rparr>"
  let ?inventory = "[((''RiverineInundation'', ''modelA''), [?res])]"
  let ?hc = "\<lambda>h::string. (Inr h :: py_error + string)"
  let ?sf = "\<lambda>(t::string) i s y. (Inr (i @ ''_'' @ s @ ''_'' @ str_int y) :: py_error + string)"
  let ?pp = "\<lambda>(a::string) b. (Inr (a @ ''/'' @ b) :: py_error + string)"
  have built: "get_source_path_generic ?hc ?sf ?pp ?inventory ''RiverineInundation'' None
      = Inr (generic_get_source_path ?hc ?sf ?pp [''modelA'' \<mapsto> ?res] ''RiverineInundation'' None)"
    by (simp add: get_source_path_generic_def index_def)
  have miss: "(''RiverineInundation'', ''modelB'') \<notin> fst ` set ?inventory"
    by simp
  from generic_absent_without_embedded [OF built miss] built show ?thesis
    by simp
qed

text \<open>
  Claim C2. For a model found in the mapping, whose resource declares at least one
  scenario, the returned function translates the caller's scenario with
  \<open>cmip6_scenario_to_rcp\<close> exactly when the id of the resource's first scenario starts
  with \<open>rcp\<close> (an error of the translation is passed on), and otherwise formats the
  array-name template with the caller's scenario as given.
\<close>

theorem generic_proxy_scenario:
  assumes "get_source_path_generic hazard_class str_format posix_path inventory hazard_type embedded
             = Inr resolver"
      and "distinct (map fst inventory)"
      and "((hazard_type, model), r # rs) \<in> set inventory"
      and "scenarios r = s0 # ss"
  shows "(startswith (scenario_id s0) ''rcp'' \<longrightarrow>
            resolver model scenario year =
              (case cmip6_scenario_to_rcp scenario of
                 Inl e \<Rightarrow> Inl e
               | Inr rcp \<Rightarrow> format_resource_path str_format posix_path r model rcp year)) \<and>
         (\<not> startswith (scenario_id s0) ''rcp'' \<longrightarrow>
            resolver model scenario year =
              format_resource_path str_format posix_path r model scenario year)"
proof -
  from assms(1) obtain d where d: "resources_dict_of inventory hazard_type Map.empty = Inr d"
    and res: "resolver = generic_get_source_path hazard_class str_format posix_path d hazard_type embedded"
    by (auto simp: get_source_path_generic_def split: sum.splits)
  from resources_dict_of_hit [OF d assms(2,3)] have "d model = Some r" by simp
  with res assms(4) show ?thesis
    by (simp add: generic_get_source_path_def index_def)
qed

theorem generic_proxy_scenario_witness:
  "(case get_source_path_generic (\<lambda>h. Inr h) (\<lambda>t i s y. Inr (i @ ''_'' @ s @ ''_'' @ str_int y))
           (\<lambda>a b. Inr (a @ ''/'' @ b))
           [((''RiverineInundation'', ''modelA''),
             [\<lparr>path = ''inundation/river'', array_name = ''{id}_{scenario}_{year}'',
               scenarios = [\<lparr>scenario_id = ''rcp4p5''\<rparr>, \<lparr>scenario_id = ''rcp8p5''\<rparr>]\<rparr>]),
            ((''RiverineInundation'', ''modelC''),
             [\<lparr>path = ''inundation/river'', array_name = ''{id}_{scenario}_{year}'',
               scenarios = [\<lparr>scenario_id = ''ssp245''\<rparr>]\<rparr>])]
           ''RiverineInundation'' None of
      Inl e \<Rightarrow> False
    | Inr resolver \<Rightarrow>
        resolver ''modelA'' ''ssp245'' 2050 = Inr (Some ''inundation/river/modelA_rcp4p5_2050'') \<and>
        resolver ''modelC'' ''ssp245'' 2050 = Inr (Some ''inundation/river/modelC_ssp245_2050''))"
proof -
  let ?resA = "\<lparr>path = ''inundation/river'', array_name = ''{id}_{scenario}_{year}'',
               scenarios = [\<lparr>scenario_id = ''rcp4p5''\<rparr>, \<lparr>scenario_id = ''rcp8p5''\<rparr>]\<rparr>"
  let ?resC = "\<lparr>path = ''inundation/river'', array_name = ''{id}_{scenario}_{year}'',
               scenarios = [\<lparr>scenario_id = ''ssp245''\<rparr>]\<rparr>"
  let ?inventory = "[((''RiverineInundation'', ''modelA''), [?resA]),
                     ((''RiverineInundation'', ''modelC''), [?resC])]"
  let ?hc = "\<lambda>h::string. (Inr h :: py_error + string)"
  let ?sf = "\<lambda>(t::string) i s y. (Inr (i @ ''_'' @ s @ ''_'' @ str_int y) :: py_error + string)"
  let ?pp = "\<lambda>(a::string) b. (Inr (a @ ''/'' @ b) :: py_error + string)"
  let ?resolver = "generic_get_source_path ?hc ?sf ?pp [''modelA'' \<mapsto> ?resA, ''modelC'' \<mapsto> ?resC]
                     ''RiverineInundation'' None"
  have built: "get_source_path_generic ?hc ?sf ?pp ?inventory ''RiverineInundation'' None
      = Inr ?resolver"
    by (simp add: get_source_path_generic_def index_def)
  have keys: "distinct (map fst ?inventory)"
    by simp
  have inA: "((''RiverineInundation'', ''modelA''), ?resA # []) \<in> set ?inventory"
    and inC: "((''RiverineInundation'', ''modelC''), ?resC # []) \<in> set ?inventory"
    by simp_all
  have scA: "scenarios ?resA = \<lparr>scenario_id = ''rcp4p5''\<rparr> # [\<lparr>scenario_id = ''rcp8p5''\<rparr>]"
    and scC: "scenarios ?resC = \<lparr>scenario_id = ''ssp245''\<rparr> # []"
    by simp_all
  from generic_proxy_scenario [OF built keys inA scA, of "''ssp245''" 2050]
    generic_proxy_scenario [OF built keys inC scC, of "''ssp245''" 2050]
  have "?resolver ''modelA'' ''ssp245'' 2050 = Inr (Some ''inundation/river/modelA_rcp4p5_2050'')"
    and "?resolver ''modelC'' ''ssp245'' 2050 = Inr (Some ''inundation/river/modelC_ssp245_2050'')"
    by (simp_all add: cmip6_scenario_to_rcp_def format_resource_path_def str_int_2050)
  with built show ?thesis
    by simp
qed

subsection \<open>The providers\<close>

text \<open>
  Claim C7. \<open>get_parameters\<close> of a chronic provider returns column 0 of the array that
  \<open>get_curves\<close> returns for the resolved path, the coordinates and the provider's
  interpolation: it is \<open>column0\<close> of the array \<open>get_intensity_curves\<close> returns for the
  same provider state and arguments, the return periods dropped, and any error of the path
  or of the reader passed on. When that array is well shaped with at least one column, the
  result has one entry per row, entry \<open>i\<close> being entry 0 of row \<open>i\<close>.
\<close>

theorem get_parameters_is_column0:
  "get_parameters get_curves self longitudes latitudes model scenario year =
     (case get_intensity_curves get_curves self longitudes latitudes model scenario year of
        Inl e \<Rightarrow> Inl e
      | Inr (curves, return_periods) \<Rightarrow> column0 curves) \<and>
   (\<forall>p curves return_periods.
      get_source_path self model scenario year = Inr p \<and>
      get_curves (reader self) p longitudes latitudes (interpolation self)
        = Inr (curves, return_periods) \<and>
      well_shaped curves \<and> 0 < ncols curves
      \<longrightarrow> (\<exists>ps. get_parameters get_curves self longitudes latitudes model scenario year = Inr ps \<and>
                length ps = length (rows curves) \<and>
                (\<forall>i < length (rows curves). ps ! i = rows curves ! i ! 0)))"
proof (intro conjI allI impI)
  show "get_parameters get_curves self longitudes latitudes model scenario year =
     (case get_intensity_curves get_curves self longitudes latitudes model scenario year of
        Inl e \<Rightarrow> Inl e
      | Inr (curves, return_periods) \<Rightarrow> column0 curves)"
    by (simp add: get_parameters_def get_intensity_curves_def split: sum.splits prod.splits)
next
  fix p curves return_periods
  assume h: "get_source_path self model scenario year = Inr p \<and>
      get_curves (reader self) p longitudes latitudes (interpolation self)
        = Inr (curves, return_periods) \<and>
      well_shaped curves \<and> 0 < ncols curves"
  then have res: "get_parameters get_curves self longitudes latitudes model scenario year
      = Inr (map hd (rows curves))"
    by (simp add: get_parameters_def column0_def)
  have "map hd (rows curves) ! i = rows curves ! i ! 0" if "i < length (rows curves)" for i
  proof -
    from that have "rows curves ! i \<in> set (rows curves)" by simp
    with h have "length (rows curves ! i) = ncols curves"
      by (simp add: well_shaped_def list_all_iff)
    with h have "rows curves ! i \<noteq> []" by auto
    with that show ?thesis by (simp add: hd_conv_nth)
  qed
  with res show "\<exists>ps. get_parameters get_curves self longitudes latitudes model scenario year = Inr ps \<and>
                length ps = length (rows curves) \<and>
                (\<forall>i < length (rows curves). ps ! i = rows curves ! i ! 0)"
    by simp
qed

theorem get_parameters_is_column0_witness:
  "get_parameters
     (\<lambda>rd p lons lats interp. Inr (\<lparr>ncols = 2, rows = [[1, 2], [3, 4 :: int]]\<rparr>, [10, 100 :: int]))
     \<lparr>get_source_path = (\<lambda>m s y. Inr (Some ''chronic_heat/osc/v1/x'')), reader = (),
       interpolation = ''floor''\<rparr>
     [0 :: int] [0] ''m'' ''ssp585'' 2100
   = Inr [1, 3]"
proof -
  let ?curves = "\<lparr>ncols = 2, rows = [[1, 2], [3, 4 :: int]]\<rparr>"
  let ?gc = "\<lambda>(rd::unit) (p::string option) (lons::int list) (lats::int list) (interp::string).
       (Inr (?curves, [10, 100 :: int]) :: py_error + (int ndarray \<times> int list))"
  let ?self = "\<lparr>get_source_path = (\<lambda>m s y. Inr (Some ''chronic_heat/osc/v1/x'')), reader = (),
       interpolation = ''floor''\<rparr>"
  have hyp: "get_source_path ?self ''m'' ''ssp585'' 2100 = Inr (Some ''chronic_heat/osc/v1/x'') \<and>
      ?gc (reader ?self) (Some ''chronic_heat/osc/v1/x'') [0] [0] (interpolation ?self)
        = Inr (?curves, [10, 100]) \<and>
      well_shaped ?curves \<and> 0 < ncols ?curves"
    by (simp add: well_shaped_def)
  from get_parameters_is_column0 [of ?gc ?self "[0]" "[0]" "''m''" "''ssp585''" 2100,
      THEN conjunct2, rule_format, OF hyp]
  obtain ps where ps: "get_parameters ?gc ?self [0] [0] ''m'' ''ssp585'' 2100 = Inr ps"
    and len: "length ps = length (rows ?curves)"
    and el: "\<forall>i < length (rows ?curves). ps ! i = rows ?curves ! i ! 0"
    by blast
  from el have "ps ! 0 = 1" and "ps ! 1 = 3"
    by simp_all
  moreover from len have "ps = [ps ! 0, ps ! 1]"
    by (cases ps; cases "tl ps") auto
  ultimately have "ps = [1, 3]"
    by simp
  with ps show ?thesis by simp
qed

text \<open>
  Claim C8, as amended. \<^verbatim>\<open>__init__\<close> obtains the reader before it checks the
  interpolation. When a reader is supplied, or \<^verbatim>\<open>ZarrReader(store=store)\<close> returns one,
  constructing a provider (base, acute or chronic) with an interpolation that is not the
  string \<open>floor\<close> or \<open>linear\<close> raises the \<^verbatim>\<open>ValueError\<close>
  "interpolation must be 'floor' or 'linear'", and constructing it with either of the two
  strings returns the provider holding the source path, the reader and that string. When
  no reader is supplied and \<^verbatim>\<open>ZarrReader(store=store)\<close> raises, construction fails with
  that error whatever the interpolation is.
\<close>

theorem provider_init_checks_interpolation:
  "(\<forall>rd. (case zarr_reader of Some r \<Rightarrow> Inr r | None \<Rightarrow> mk_reader store) = Inr rd \<longrightarrow>
      (interp \<notin> {Some ''floor'', Some ''linear''} \<longrightarrow>
         HazardDataProvider_init mk_reader gsp store zarr_reader interp
           = Inl (ValueError interpolation_message) \<and>
         AcuteHazardDataProvider_init mk_reader gsp store zarr_reader interp
           = Inl (ValueError interpolation_message) \<and>
         ChronicHazardDataProvider_init mk_reader gsp store zarr_reader interp
           = Inl (ValueError interpolation_message)) \<and>
      (\<forall>i \<in> {''floor'', ''linear''}.
         HazardDataProvider_init mk_reader gsp store zarr_reader (Some i)
           = Inr \<lparr>get_source_path = gsp, reader = rd, interpolation = i\<rparr> \<and>
         AcuteHazardDataProvider_init mk_reader gsp store zarr_reader (Some i)
           = Inr \<lparr>get_source_path = gsp, reader = rd, interpolation = i\<rparr> \<and>
         ChronicHazardDataProvider_init mk_reader gsp store zarr_reader (Some i)
           = Inr \<lparr>get_source_path = gsp, reader = rd, interpolation = i\<rparr>)) \<and>
   (\<forall>e. zarr_reader = None \<and> mk_reader store = Inl e \<longrightarrow>
      HazardDataProvider_init mk_reader gsp store zarr_reader interp = Inl e \<and>
      AcuteHazardDataProvider_init mk_reader gsp store zarr_reader interp = Inl e \<and>
      ChronicHazardDataProvider_init mk_reader gsp store zarr_reader interp = Inl e)"
  by (cases interp)
     (auto simp: HazardDataProvider_init_def AcuteHazardDataProvider_init_def
        ChronicHazardDataProvider_init_def)

theorem provider_init_checks_interpolation_witness:
  "HazardDataProvider_init unavailable_reader no_source_path None (Some ()) (Some ''cubic'')
     = Inl (ValueError interpolation_message) \<and>
   ChronicHazardDataProvider_init unavailable_reader no_source_path None (Some ()) None
     = Inl (ValueError interpolation_message) \<and>
   AcuteHazardDataProvider_init unavailable_reader no_source_path None (Some ()) (Some ''linear'')
     = Inr \<lparr>get_source_path = no_source_path, reader = (), interpolation = ''linear''\<rparr> \<and>
   AcuteHazardDataProvider_init unavailable_reader no_source_path None None (Some ''linear'')
     = Inl (OtherError ''cannot open store'')"
proof -
  have rd: "(case Some () of Some r \<Rightarrow> Inr r | None \<Rightarrow> unavailable_reader None) = Inr ()"
    by simp
  have failing: "(None :: unit option) = None \<and>
      unavailable_reader None = Inl (OtherError ''cannot open store'')"
    by (simp add: unavailable_reader_def)
  note a = provider_init_checks_interpolation
    [where zarr_reader = "Some ()" and mk_reader = unavailable_reader and store = None
       and interp = "Some ''cubic''" and gsp = no_source_path,
     THEN conjunct1, rule_format, OF rd]
  note b = provider_init_checks_interpolation
    [where zarr_reader = "Some ()" and mk_reader = unavailable_reader and store = None
       and interp = None and gsp = no_source_path,
     THEN conjunct1, rule_format, OF rd]
  note c = provider_init_checks_interpolation
    [where zarr_reader = None and mk_reader = unavailable_reader and store = None
       and interp = "Some ''linear''" and gsp = no_source_path,
     THEN conjunct2, rule_format, OF failing]
  from a b c show ?thesis by simp
qed

text \<open>
  Claim C8 as it was stated, without the condition on the reader, fails: with no reader
  supplied and a reader constructor that raises, the legal string \<open>floor\<close> does not
  construct a provider, and the illegal string \<open>cubic\<close> is answered with the reader's
  error, not with the interpolation \<^verbatim>\<open>ValueError\<close>.
\<close>

theorem provider_init_reader_first_counterexample:
  "HazardDataProvider_init unavailable_reader no_source_path None None (Some ''floor'')
     = Inl (OtherError ''cannot open store'') \<and>
   HazardDataProvider_init unavailable_reader no_source_path None None (Some ''cubic'')
     \<noteq> Inl (ValueError interpolation_message)"
  by (simp add: HazardDataProvider_init_def unavailable_reader_def)

end
